theory Spec2Isabelle
  imports Complex_Main "HOL-Library.Multiset"
begin

section \<open>Python values used by \<^verbatim>\<open>tiktorch/trainy.py\<close>\<close>

text \<open>
  Exceptions are values.  \<open>QueueEmpty\<close> and \<open>QueueFull\<close> are \<^verbatim>\<open>queue.Empty\<close> and
  \<^verbatim>\<open>queue.Full\<close>; \<open>StepError\<close> stands for whatever
  the augmentation / forward / loss / backward / step sequence (an external collaborator)
  may raise; \<open>AssertionError\<close> is a failed \<^verbatim>\<open>assert\<close>.
\<close>

datatype error = QueueEmpty | QueueFull | NameError | TypeError | ValueError | RuntimeError
  | AttributeError | AssertionError | StepError

subsection \<open>\<^verbatim>\<open>collections.deque(maxlen=n)\<close>\<close>

text \<open>
  A bounded deque: \<^verbatim>\<open>append\<close> adds on the right and, when the length then exceeds
  \<^verbatim>\<open>maxlen\<close>, drops one element on the left.  \<^verbatim>\<open>deque(iterable, maxlen)\<close> keeps the last
  \<^verbatim>\<open>maxlen\<close> elements of the iterable.  \<^verbatim>\<open>popleft\<close> on an empty deque raises; the only
  call in the source is guarded by \<^verbatim>\<open>len(data_cache) > 0\<close>, and the model keeps the guard.
\<close>

record 'a deque =
  items :: "'a list"
  maxlen :: nat

definition deque_new :: "'a list \<Rightarrow> nat \<Rightarrow> 'a deque" where
  "deque_new xs m = \<lparr>items = drop (length xs - m) xs, maxlen = m\<rparr>"

definition deque_append :: "'a deque \<Rightarrow> 'a \<Rightarrow> 'a deque" where
  "deque_append d x =
     (let xs = items d @ [x]
      in d\<lparr>items := (if maxlen d < length xs then tl xs else xs)\<rparr>)"

definition popleft :: "'a deque \<Rightarrow> 'a \<times> 'a deque" where
  "popleft d = (hd (items d), d\<lparr>items := tl (items d)\<rparr>)"

subsection \<open>Samples and hyperparameters\<close>

text \<open>
  A sample is the pair \<^verbatim>\<open>(data, labels)\<close> of tensors; the tensor type is a parameter.
  The hyperparameters are the \<^verbatim>\<open>Namespace\<close> built in \<^verbatim>\<open>Trainer.__init__\<close>.  \<^verbatim>\<open>batch_size\<close> is a
  Python integer and is compared with \<^verbatim>\<open>len(batch)\<close>; \<^verbatim>\<open>cache_size\<close> is the \<^verbatim>\<open>maxlen\<close> of a deque,
  whose constructor raises on a negative number before the loop starts, so it is a natural
  number here.
\<close>

type_synonym 't sample = "'t \<times> 't"

type_synonym kwargs = "(string \<times> string) list"

record hparams =
  optimizer_kwargs :: kwargs
  optimizer_name :: string
  criterion_kwargs :: kwargs
  criterion_name :: string
  batch_size :: int
  cache_size :: nat
  augmentor_kwargs :: kwargs

section \<open>The sample cache and the batch assembler\<close>

subsection \<open>\<^verbatim>\<open>_cache_keeping\<close>\<close>

text \<open>
  The tolerance of both comparisons, and the scan of the cache (the \<^verbatim>\<open>for idx, cache_sample in
  enumerate(data_cache)\<close> loop) with its two accumulators \<^verbatim>\<open>dirty_indices\<close> and \<^verbatim>\<open>update_batch\<close>.
  \<open>absdiff a b\<close> is \<^verbatim>\<open>a.sub(b).abs_().sum().item()\<close>, a parameter; the floating-point number
  it returns is taken as a real number.
\<close>

definition tolerance :: real where
  "tolerance = 1 / 100000"

fun scan_cache :: "('t \<Rightarrow> 't \<Rightarrow> real) \<Rightarrow> 't sample \<Rightarrow> (nat \<times> 't sample) list
    \<Rightarrow> nat list \<times> bool \<Rightarrow> nat list \<times> bool" where
  "scan_cache absdiff sample [] acc = acc"
| "scan_cache absdiff sample ((idx, cache_sample) # rest) (dirty_indices, update_batch) =
     (if absdiff (fst sample) (fst cache_sample) > tolerance
      then scan_cache absdiff sample rest (dirty_indices, update_batch)
      else if absdiff (snd sample) (snd cache_sample) < tolerance
      then scan_cache absdiff sample rest (dirty_indices, False)
      else scan_cache absdiff sample rest (dirty_indices @ [idx], update_batch))"

text \<open>
  \<^verbatim>\<open>_cache_keeping\<close> declares \<^verbatim>\<open>global data_cache\<close>: every use of the name inside it is the
  module-level variable \<^verbatim>\<open>data_cache\<close> of \<^verbatim>\<open>trainy.py\<close>, not the local deque of
  \<^verbatim>\<open>_train_process\<close>.  The model therefore takes the binding of that global as an argument,
  \<open>None\<close> when the name is unbound; reading an unbound global raises \<^verbatim>\<open>NameError\<close>, and the
  first statement that touches the name is the read in \<^verbatim>\<open>enumerate(data_cache)\<close>.
  \<^verbatim>\<open>hparams\<close> is only read, so it is the variable of the enclosing function.
  The result is \<^verbatim>\<open>update_batch\<close> and the new binding of the global.
\<close>

definition cache_keeping :: "('t \<Rightarrow> 't \<Rightarrow> real) \<Rightarrow> hparams \<Rightarrow> 't sample deque option
    \<Rightarrow> 't sample \<Rightarrow> error + (bool \<times> 't sample deque option)" where
  "cache_keeping absdiff hp g sample =
     (case g of
        None \<Rightarrow> Inl NameError
      | Some data_cache \<Rightarrow>
          (let (dirty_indices, update_batch) =
                 scan_cache absdiff sample (enumerate 0 (items data_cache)) ([], True);
               data_cache1 =
                 (if dirty_indices \<noteq> []
                  then deque_new [s. (i, s) \<leftarrow> enumerate 0 (items data_cache),
                                     i \<notin> set dirty_indices] (cache_size hp)
                  else data_cache);
               data_cache2 = deque_append data_cache1 sample
           in Inr (update_batch, Some data_cache2)))"

subsection \<open>The fill loop and the top-up loop\<close>

text \<open>
  The loop \<^verbatim>\<open>while len(batch) < hparams.batch_size\<close> of lines 276 to 295.  The first argument is
  \<^verbatim>\<open>use_cache_keeping\<close>; the list argument is the content of \<^verbatim>\<open>data_queue\<close>, and
  \<^verbatim>\<open>data_queue.get(block=False)\<close> takes its head or raises \<^verbatim>\<open>queue.Empty\<close>.  The result is how
  the loop ended, followed by the queue, the local cache, the global binding and the batch.
\<close>

fun fill :: "bool \<Rightarrow> ('t \<Rightarrow> 't \<Rightarrow> real) \<Rightarrow> hparams \<Rightarrow> 't sample list \<Rightarrow> 't sample deque
    \<Rightarrow> 't sample deque option \<Rightarrow> 't sample list
    \<Rightarrow> (error + unit) \<times> 't sample list \<times> 't sample deque \<times> 't sample deque option
        \<times> 't sample list" where
  "fill ck absdiff hp [] data_cache g batch =
     (if int (length batch) < batch_size hp
      then (Inl QueueEmpty, [], data_cache, g, batch)
      else (Inr (), [], data_cache, g, batch))"
| "fill ck absdiff hp (sample # queue) data_cache g batch =
     (if int (length batch) < batch_size hp
      then (if ck
            then (case cache_keeping absdiff hp g sample of
                    Inl e \<Rightarrow> (Inl e, queue, data_cache, g, batch)
                  | Inr (update_batch, g') \<Rightarrow>
                      fill ck absdiff hp queue data_cache g'
                        (if update_batch then batch @ [sample] else batch))
            else fill ck absdiff hp queue (deque_append data_cache sample) g
                   (batch @ [sample]))
      else (Inr (), sample # queue, data_cache, g, batch))"

text \<open>
  The loop of lines 309 to 312:
  \<^verbatim>\<open>while len(data_cache) > 0 and len(batch) < hparams.batch_size\<close>.
\<close>

function top_up :: "int \<Rightarrow> 'a deque \<Rightarrow> 'a list \<Rightarrow> 'a deque \<times> 'a list" where
  "top_up B data_cache batch =
     (if length (items data_cache) > 0 \<and> int (length batch) < B
      then (let (data_sample, data_cache1) = popleft data_cache
            in top_up B (deque_append data_cache1 data_sample) (batch @ [data_sample]))
      else (data_cache, batch))"
  by pat_completeness auto
termination
  by (relation "measure (\<lambda>(B, data_cache, batch). nat (B - int (length batch)))") auto

declare top_up.simps [simp del]


section \<open>The training worker: \<^verbatim>\<open>Trainer._train_process\<close>\<close>

subsection \<open>Queues\<close>

text \<open>
  A \<^verbatim>\<open>multiprocessing.Queue(maxsize)\<close> is the list of its items, oldest first.  A
  \<^verbatim>\<open>maxsize\<close> of zero means no bound; \<^verbatim>\<open>ignition\<close> creates every queue with \<^verbatim>\<open>mp.Queue()\<close>,
  so the queues of a worker have \<open>queue_maxsize\<close>.
\<close>

definition put_nowait :: "nat \<Rightarrow> 'a list \<Rightarrow> 'a \<Rightarrow> error + 'a list" where
  "put_nowait maxsize q x =
     (if 0 < maxsize \<and> maxsize \<le> length q then Inl QueueFull else Inr (q @ [x]))"

definition get_nowait :: "'a list \<Rightarrow> error + ('a \<times> 'a list)" where
  "get_nowait q = (case q of [] \<Rightarrow> Inl QueueEmpty | x # rest \<Rightarrow> Inr (x, rest))"

definition queue_maxsize :: nat where
  "queue_maxsize = 0"

subsection \<open>State of the worker\<close>

text \<open>
  The numeric step is an external collaborator.  The state of the trainable unit is
  abstracted to the number of \<^verbatim>\<open>optim.step()\<close> calls its parameters reflect, and the internal
  state of an optimizer object to the number of \<^verbatim>\<open>step()\<close> calls made on that object since
  it was constructed; \<^verbatim>\<open>state_dict()\<close> returns a copy of these.
\<close>

record optimizer =
  opt_name :: string
  opt_kwargs :: kwargs
  opt_steps :: nat

record criterion =
  crit_name :: string
  crit_kwargs :: kwargs

definition new_optim :: "hparams \<Rightarrow> optimizer" where
  "new_optim hp =
     \<lparr>opt_name = optimizer_name hp, opt_kwargs = optimizer_kwargs hp, opt_steps = 0\<rparr>"

definition new_criterion :: "hparams \<Rightarrow> criterion" where
  "new_criterion hp = \<lparr>crit_name = criterion_name hp, crit_kwargs = criterion_kwargs hp\<rparr>"

text \<open>
  The two records above are the objects that
  \<^verbatim>\<open>getattr(torch.optim, hparams.optimizer_name)(model.parameters(), **hparams.optimizer_kwargs)\<close>
  and \<^verbatim>\<open>getattr(torch.nn, hparams.criterion_name)(**hparams.criterion_kwargs)\<close> return when they
  return.  They need not return: \<^verbatim>\<open>getattr\<close> raises \<^verbatim>\<open>AttributeError\<close> for a name the package
  does not have, and the constructor raises (\<^verbatim>\<open>TypeError\<close>, \<^verbatim>\<open>ValueError\<close>) for arguments it
  rejects.  Which names and arguments the installed torch accepts is a parameter: for a name
  and keyword arguments each function gives \<open>None\<close> when the construction returns and the
  exception otherwise.
\<close>

record torch_lib =
  nn_new :: "string \<Rightarrow> kwargs \<Rightarrow> error option"
  optim_new :: "string \<Rightarrow> kwargs \<Rightarrow> error option"

definition build_criterion :: "torch_lib \<Rightarrow> hparams \<Rightarrow> error + criterion" where
  "build_criterion torch hp =
     (case nn_new torch (criterion_name hp) (criterion_kwargs hp) of
        Some e \<Rightarrow> Inl e
      | None \<Rightarrow> Inr (new_criterion hp))"

definition build_optim :: "torch_lib \<Rightarrow> hparams \<Rightarrow> error + optimizer" where
  "build_optim torch hp =
     (case optim_new torch (optimizer_name hp) (optimizer_kwargs hp) of
        Some e \<Rightarrow> Inl e
      | None \<Rightarrow> Inr (new_optim hp))"

text \<open>
  What the worker does to the outside, in order: starting a state server thread, calling
  \<^verbatim>\<open>_kill_state_server\<close> on one, sleeping (milliseconds), and handing a batch to the
  augmentation / forward / loss / backward / step sequence.
\<close>

datatype component = Model | Optimizer

datatype 't event =
    StartStateServer component
  | KillStateServer component
  | Sleep nat
  | Feed "'t sample list"

text \<open>
  The local variables of \<^verbatim>\<open>_train_process\<close>, the queues and events it is given, the binding
  of the module-level name \<^verbatim>\<open>data_cache\<close>, and the trace of events.
\<close>

record 't worker =
  hparams :: hparams
  criterion :: criterion
  optim :: optimizer
  model :: nat
  iter_count :: nat
  data_cache :: "'t sample deque"
  global_data_cache :: "'t sample deque option"
  data_queue :: "'t sample list"
  hparams_queue :: "hparams list"
  state_queue :: "nat list"
  optimizer_queue :: "optimizer list"
  abort :: bool
  pause :: bool
  change_hparams :: bool
  state_request :: bool
  optimizer_state_request :: bool
  trace :: "'t event list"

text \<open>
  The state when the loop is entered (\<^verbatim>\<open>ignition\<close>, then lines 150 to 226): the queues are new,
  the hyperparameters put by \<^verbatim>\<open>ignition\<close> have been taken from \<^verbatim>\<open>hparams_queue\<close>, the criterion
  and the optimizer have been built from them, the cache is
  \<^verbatim>\<open>deque(maxlen=hparams.cache_size)\<close>, both server threads have been started, and no
  statement of the module binds the global name \<^verbatim>\<open>data_cache\<close>.  \<open>train_process_start\<close> is
  lines 150 to 226 themselves: when torch rejects the criterion or the optimizer, the
  exception leaves \<^verbatim>\<open>_train_process\<close> and the loop is never entered.
\<close>

definition start_worker :: "hparams \<Rightarrow> nat \<Rightarrow> 't worker" where
  "start_worker hp model_state =
     \<lparr>hparams = hp, criterion = new_criterion hp, optim = new_optim hp,
      model = model_state, iter_count = 0,
      data_cache = deque_new [] (cache_size hp), global_data_cache = None,
      data_queue = [], hparams_queue = [], state_queue = [], optimizer_queue = [],
      abort = False, pause = False, change_hparams = False, state_request = False,
      optimizer_state_request = False,
      trace = [StartStateServer Model, StartStateServer Optimizer]\<rparr>"

definition train_process_start :: "torch_lib \<Rightarrow> hparams \<Rightarrow> nat \<Rightarrow> error + 't worker" where
  "train_process_start torch hp model_state =
     (case build_criterion torch hp of
        Inl e \<Rightarrow> Inl e
      | Inr crit \<Rightarrow>
          (case build_optim torch hp of
             Inl e \<Rightarrow> Inl e
           | Inr opt \<Rightarrow> Inr (start_worker hp model_state)))"

subsection \<open>One iteration of \<^verbatim>\<open>while True\<close>\<close>

datatype outcome = Continue | Break | Raised error

text \<open>
  Lines 228 to 246: the hyperparameter change.  The statements run in the order of the
  source: the event is cleared, \<^verbatim>\<open>hparams\<close> is assigned from the queue, the optimizer state
  server is killed, the criterion is built, the optimizer is built, the new server thread is
  started.  Only \<^verbatim>\<open>queue.Empty\<close> is caught, so an exception of either construction leaves
  \<^verbatim>\<open>_train_process\<close> with what has been done so far; it is the first component of the result.
\<close>

definition change_hparams_step :: "torch_lib \<Rightarrow> 't worker \<Rightarrow> error option \<times> 't worker" where
  "change_hparams_step torch s =
     (if change_hparams s
      then (let s1 = s\<lparr>change_hparams := False\<rparr>
            in case get_nowait (hparams_queue s1) of
                 Inl e \<Rightarrow> (None, s1)
               | Inr (hp, rest) \<Rightarrow>
                   (let s2 = s1\<lparr>hparams_queue := rest, hparams := hp,
                                trace := trace s1 @ [KillStateServer Optimizer]\<rparr>
                    in case build_criterion torch hp of
                         Inl e \<Rightarrow> (Some e, s2)
                       | Inr crit \<Rightarrow>
                           (let s3 = s2\<lparr>criterion := crit\<rparr>
                            in case build_optim torch hp of
                                 Inl e \<Rightarrow> (Some e, s3)
                               | Inr opt \<Rightarrow>
                                   (None, s3\<lparr>optim := opt,
                                             trace := trace s3 @ [StartStateServer Optimizer]\<rparr>))))
      else (None, s))"

text \<open>Lines 249 to 256: the state request answered inside the loop.\<close>

definition state_request_step :: "'t worker \<Rightarrow> 't worker" where
  "state_request_step s =
     (if state_request s
      then (let s1 = s\<lparr>state_request := False\<rparr>
            in case put_nowait queue_maxsize (state_queue s1) (model s1) of
                 Inl e \<Rightarrow> s1
               | Inr q \<Rightarrow> s1\<lparr>state_queue := q\<rparr>)
      else s)"

text \<open>
  Lines 269 to 319: the batch.  \<open>Retry\<close> is the \<^verbatim>\<open>continue\<close> of line 302, \<open>Ready\<close> a batch that
  goes on to line 321, \<open>Failed\<close> an exception that leaves \<^verbatim>\<open>_train_process\<close>.  Only
  \<^verbatim>\<open>queue.Empty\<close> is caught; the branches of the handler are in the order of the source.
\<close>

datatype 't assembled = Retry | Ready "'t sample list" | Failed error

definition assemble :: "bool \<Rightarrow> ('t \<Rightarrow> 't \<Rightarrow> real) \<Rightarrow> 't worker \<Rightarrow> 't assembled \<times> 't worker" where
  "assemble use_cache_keeping absdiff s =
     (case fill use_cache_keeping absdiff (hparams s) (data_queue s) (data_cache s)
             (global_data_cache s) [] of
        (r, q, c, g, batch) \<Rightarrow>
          (let s1 = s\<lparr>data_queue := q, data_cache := c, global_data_cache := g\<rparr>
           in case r of
                Inr u \<Rightarrow> (Ready batch, s1)
              | Inl e \<Rightarrow>
                  if e = QueueEmpty
                  then (if length batch = 0 \<and> length (items c) = 0
                        then (Retry, s1\<lparr>trace := trace s1 @ [Sleep 100]\<rparr>)
                        else if int (length batch) = batch_size (hparams s)
                        then (Ready batch, s1)
                        else if int (length batch) < batch_size (hparams s)
                        then (case top_up (batch_size (hparams s)) c batch of
                                (c', batch') \<Rightarrow> (Ready batch', s1\<lparr>data_cache := c'\<rparr>))
                        else (Failed RuntimeError,
                              s1\<lparr>trace := trace s1 @ [KillStateServer Model,
                                                      KillStateServer Optimizer]\<rparr>))
                  else (Failed e, s1)))"

text \<open>
  Lines 321 to 355.  \<open>ok batch\<close> says whether the collaborators (augmentation, stacking,
  forward, loss, backward, step, logging) succeed on the batch.  On an empty batch the
  unpacking of the zipped augmented batch into \<^verbatim>\<open>data, labels, weights\<close> at line 326 raises
  \<^verbatim>\<open>ValueError\<close>, since there is nothing to unpack.
\<close>

definition numeric_update :: "('t sample list \<Rightarrow> bool) \<Rightarrow> 't sample list \<Rightarrow> 't worker
    \<Rightarrow> outcome \<times> 't worker" where
  "numeric_update ok batch s =
     (let s1 = s\<lparr>trace := trace s @ [Feed batch]\<rparr>;
          killed = s1\<lparr>trace := trace s1 @ [KillStateServer Model, KillStateServer Optimizer]\<rparr>
      in if batch = [] then (Raised ValueError, killed)
         else if \<not> ok batch then (Raised StepError, killed)
         else (Continue,
               s1\<lparr>model := Suc (model s1),
                  optim := (optim s1)\<lparr>opt_steps := Suc (opt_steps (optim s1))\<rparr>,
                  iter_count := Suc (iter_count s1)\<rparr>))"

definition train_iteration :: "torch_lib \<Rightarrow> bool \<Rightarrow> ('t \<Rightarrow> 't \<Rightarrow> real)
    \<Rightarrow> ('t sample list \<Rightarrow> bool) \<Rightarrow> 't worker \<Rightarrow> outcome \<times> 't worker" where
  "train_iteration torch use_cache_keeping absdiff ok s =
     (case change_hparams_step torch s of
        (Some e, s1) \<Rightarrow> (Raised e, s1)
      | (None, s1) \<Rightarrow>
          (let s2 = state_request_step s1
           in if abort s2
              then (Break, s2\<lparr>trace := trace s2 @ [KillStateServer Model,
                                                      KillStateServer Optimizer]\<rparr>)
              else if pause s2
              then (Continue, s2\<lparr>trace := trace s2 @ [Sleep 1000]\<rparr>)
              else (case assemble use_cache_keeping absdiff s2 of
                      (Retry, s3) \<Rightarrow> (Continue, s3)
                    | (Failed e, s3) \<Rightarrow> (Raised e, s3)
                    | (Ready batch, s3) \<Rightarrow> numeric_update ok batch s3)))"

subsection \<open>The worker together with its controller\<close>

text \<open>
  The controller runs in another process and acts on the worker only through the queues
  and events.  Its primitive effects, from \<^verbatim>\<open>push\<close>, \<^verbatim>\<open>push_hparams\<close> (which empties
  \<^verbatim>\<open>hparams_queue\<close>, puts the new record, and later sets the event), the first half of
  \<^verbatim>\<open>update_handler_model_state\<close>, \<^verbatim>\<open>pause\<close>, \<^verbatim>\<open>resume\<close> and \<^verbatim>\<open>shut_down_training_process\<close>, are
  interleaved with iterations of the loop.  A worker that has left the loop iterates no more.
\<close>

datatype 't action =
    Push "'t sample list"
  | PutHparams hparams
  | SetChangeHparams
  | SetStateRequest
  | SetPause
  | ClearPause
  | SetAbort
  | Iterate

fun system_step :: "torch_lib \<Rightarrow> bool \<Rightarrow> ('t \<Rightarrow> 't \<Rightarrow> real) \<Rightarrow> ('t sample list \<Rightarrow> bool)
    \<Rightarrow> outcome \<times> 't worker \<Rightarrow> 't action \<Rightarrow> outcome \<times> 't worker" where
  "system_step torch ck absdiff ok (out, s) (Push samples) =
     (out, s\<lparr>data_queue := data_queue s @ samples\<rparr>)"
| "system_step torch ck absdiff ok (out, s) (PutHparams hp) = (out, s\<lparr>hparams_queue := [hp]\<rparr>)"
| "system_step torch ck absdiff ok (out, s) SetChangeHparams = (out, s\<lparr>change_hparams := True\<rparr>)"
| "system_step torch ck absdiff ok (out, s) SetStateRequest = (out, s\<lparr>state_request := True\<rparr>)"
| "system_step torch ck absdiff ok (out, s) SetPause = (out, s\<lparr>pause := True\<rparr>)"
| "system_step torch ck absdiff ok (out, s) ClearPause = (out, s\<lparr>pause := False\<rparr>)"
| "system_step torch ck absdiff ok (out, s) SetAbort = (out, s\<lparr>abort := True\<rparr>)"
| "system_step torch ck absdiff ok (out, s) Iterate =
     (if out = Continue then train_iteration torch ck absdiff ok s else (out, s))"

definition run :: "torch_lib \<Rightarrow> bool \<Rightarrow> ('t \<Rightarrow> 't \<Rightarrow> real) \<Rightarrow> ('t sample list \<Rightarrow> bool)
    \<Rightarrow> 't action list \<Rightarrow> 't worker \<Rightarrow> outcome \<times> 't worker" where
  "run torch ck absdiff ok actions s = foldl (system_step torch ck absdiff ok) (Continue, s) actions"


fun fed_samples :: "'t event list \<Rightarrow> 't sample list" where
  "fed_samples [] = []"
| "fed_samples (Feed batch # events) = batch @ fed_samples events"
| "fed_samples (e # events) = fed_samples events"

section \<open>The state server thread: \<^verbatim>\<open>Trainer._state_server\<close>\<close>

text \<open>
  The second argument of \<^verbatim>\<open>isinstance\<close> is a class or something else; the built-in raises
  \<^verbatim>\<open>TypeError\<close> when it is not a class (nor a tuple or union of classes).  The first argument
  is represented by the names of the classes its type inherits from.  \<^verbatim>\<open>torch.optim\<close> and
  \<^verbatim>\<open>torch.nn\<close>, as imported at line 8, are packages of the torch library: module objects.
\<close>

datatype classinfo = PyClass string | PyModule string

definition isinstance :: "string list \<Rightarrow> classinfo \<Rightarrow> error + bool" where
  "isinstance mro info =
     (case info of PyModule name \<Rightarrow> Inl TypeError | PyClass name \<Rightarrow> Inr (name \<in> set mro))"

definition torch_optim :: classinfo where
  "torch_optim = PyModule ''torch.optim''"

definition torch_nn :: classinfo where
  "torch_nn = PyModule ''torch.nn''"

text \<open>
  What one server thread shares with the rest of the process: its stop event, the request
  event, the state queue, and the state of the object it serves.
\<close>

record 's server =
  stop_server :: bool
  request :: bool
  served_queue :: "'s list"
  state_obj :: 's

datatype thread_result = Running | Returned | Died error

text \<open>
  The \<^verbatim>\<open>while True\<close> loop of lines 100 to 115.  It ends only when the stop event is seen, so it
  takes fuel (the number of polls), and \<open>Running\<close> is a thread that has not returned within
  it.  \<open>env k\<close> is what the other threads do to the shared state during the \<open>k\<close>-th sleep.
  The lock held around the put orders the put against other threads and has no effect in
  this sequential model.
\<close>

fun serve :: "nat \<Rightarrow> (nat \<Rightarrow> 's server \<Rightarrow> 's server) \<Rightarrow> nat \<Rightarrow> 's server
    \<Rightarrow> thread_result \<times> 's server" where
  "serve 0 env k sv = (Running, sv)"
| "serve (Suc fuel) env k sv =
     (if stop_server sv then (Returned, sv)
      else (let sv1 =
                  (if request sv
                   then (case put_nowait queue_maxsize (served_queue sv) (state_obj sv) of
                           Inl e \<Rightarrow> sv\<lparr>request := False\<rparr>
                         | Inr q \<Rightarrow> sv\<lparr>served_queue := q, request := False\<rparr>)
                   else sv)
            in serve fuel env (Suc k) (env k sv1)))"

text \<open>
  Line 99, \<^verbatim>\<open>assert isinstance(state_obj, torch.optim) or isinstance(state_obj, torch.nn)\<close>,
  evaluated left to right, then the loop.  Assertions are executed (the interpreter is not
  run with \<^verbatim>\<open>-O\<close>).
\<close>

definition state_server :: "nat \<Rightarrow> (nat \<Rightarrow> 's server \<Rightarrow> 's server) \<Rightarrow> string list
    \<Rightarrow> 's server \<Rightarrow> thread_result \<times> 's server" where
  "state_server fuel env mro sv =
     (case isinstance mro torch_optim of
        Inl e \<Rightarrow> (Died e, sv)
      | Inr a \<Rightarrow>
          if a then serve fuel env 0 sv
          else (case isinstance mro torch_nn of
                  Inl e \<Rightarrow> (Died e, sv)
                | Inr b \<Rightarrow> if b then serve fuel env 0 sv else (Died AssertionError, sv)))"

section \<open>The controller: methods of \<^verbatim>\<open>Trainer\<close>\<close>

text \<open>
  What the methods do, in order: log records, setting an event, a blocking
  \<^verbatim>\<open>get(timeout=...)\<close> on a queue, \<^verbatim>\<open>load_state_dict\<close>, sleeping (seconds).  No method of the
  class terminates the training process; \<open>Terminate\<close> is there to say so.
\<close>

datatype level = INFO | WARNING

datatype message =
    RequestingNewState | FoundResidualState | WaitingForNewState | AcquiredNewState
  | FailedToAcquireNewState | LoadedState
  | SettingAbortEvent | TryOf nat nat | ProcessAlive | ProcessDead
  | KillingStateServer | AttemptOf nat nat | FailedToKill nat | StateServerKilled

datatype ctl_event =
    Log level message
  | SetEvent string
  | BlockingGet component nat
  | LoadStateDict
  | SleepSeconds nat
  | Terminate

record 's trainer =
  tr_ignited :: bool
  tr_training_process :: bool
  tr_model :: 's
  tr_state_queue :: "'s list"
  tr_optimizer_state_queue :: "'s list"
  tr_state_request_event :: bool
  tr_optimizer_state_request_event :: bool
  tr_abort_event :: bool
  tr_trace :: "ctl_event list"

definition STATE_QUEUE_GET_TIMEOUT :: nat where
  "STATE_QUEUE_GET_TIMEOUT = 5"

text \<open>
  \<^verbatim>\<open>Queue.get(timeout=t)\<close>: \<open>arrivals t\<close> are the items the other process puts within \<open>t\<close>
  seconds of the call; the call returns the oldest item there is, and raises
  \<^verbatim>\<open>queue.Empty\<close> when the queue is empty and nothing arrives in time.
\<close>

definition queue_get :: "nat \<Rightarrow> (nat \<Rightarrow> 'a list) \<Rightarrow> 'a list \<Rightarrow> error + ('a \<times> 'a list)" where
  "queue_get timeout arrivals q = get_nowait (q @ arrivals timeout)"

text \<open>
  \<^verbatim>\<open>_drain_state_queue\<close>: \<^verbatim>\<open>get_nowait\<close> until \<^verbatim>\<open>queue.Empty\<close>, keeping the last item taken.
\<close>

fun drain_loop :: "'s list \<Rightarrow> 's option \<times> ctl_event list \<Rightarrow> 's option \<times> ctl_event list" where
  "drain_loop [] (state, evs) = (state, evs)"
| "drain_loop (x # q) (state, evs) = drain_loop q (Some x, evs @ [Log INFO FoundResidualState])"

definition drain_state_queue :: "component \<Rightarrow> 's trainer \<Rightarrow> 's option \<times> 's trainer" where
  "drain_state_queue key tr =
     (case key of
        Model \<Rightarrow>
          (case drain_loop (tr_state_queue tr) (None, tr_trace tr) of
             (state, evs) \<Rightarrow> (state, tr\<lparr>tr_state_queue := [], tr_trace := evs\<rparr>))
      | Optimizer \<Rightarrow>
          (case drain_loop (tr_optimizer_state_queue tr) (None, tr_trace tr) of
             (state, evs) \<Rightarrow> (state, tr\<lparr>tr_optimizer_state_queue := [], tr_trace := evs\<rparr>)))"

definition update_handler_model_state :: "(nat \<Rightarrow> 's list) \<Rightarrow> 's trainer \<Rightarrow> error + 's trainer" where
  "update_handler_model_state arrivals tr =
     (if \<not> tr_ignited tr then Inl AssertionError
      else (let tr0 = tr\<lparr>tr_trace := tr_trace tr @ [Log INFO RequestingNewState]\<rparr>;
                (state, tr1) = drain_state_queue Model tr0;
                tr2 = tr1\<lparr>tr_state_request_event := True,
                         tr_trace := tr_trace tr1 @ [SetEvent ''state_request'',
                           Log INFO WaitingForNewState,
                           BlockingGet Model STATE_QUEUE_GET_TIMEOUT]\<rparr>;
                (state', tr3) =
                  (case queue_get STATE_QUEUE_GET_TIMEOUT arrivals (tr_state_queue tr2) of
                     Inl e \<Rightarrow>
                       (state, tr2\<lparr>tr_trace := tr_trace tr2 @ [Log INFO FailedToAcquireNewState]\<rparr>)
                   | Inr (v, rest) \<Rightarrow>
                       (Some v, tr2\<lparr>tr_state_queue := rest,
                                   tr_trace := tr_trace tr2 @ [Log INFO AcquiredNewState]\<rparr>))
            in case state' of
                 None \<Rightarrow> Inr tr3
               | Some v \<Rightarrow>
                   Inr (tr3\<lparr>tr_model := v,
                           tr_trace := tr_trace tr3 @ [LoadStateDict, Log INFO LoadedState]\<rparr>)))"

definition update_handler_optimizer_state :: "(nat \<Rightarrow> 's list) \<Rightarrow> 's trainer
    \<Rightarrow> error + ('s option \<times> 's trainer)" where
  "update_handler_optimizer_state arrivals tr =
     (if \<not> tr_ignited tr then Inl AssertionError
      else (let tr0 = tr\<lparr>tr_trace := tr_trace tr @ [Log INFO RequestingNewState]\<rparr>;
                (state, tr1) = drain_state_queue Optimizer tr0;
                tr2 = tr1\<lparr>tr_optimizer_state_request_event := True,
                         tr_trace := tr_trace tr1 @ [SetEvent ''optimizer_state_request'',
                           Log INFO WaitingForNewState,
                           BlockingGet Optimizer STATE_QUEUE_GET_TIMEOUT]\<rparr>
            in case queue_get STATE_QUEUE_GET_TIMEOUT arrivals (tr_optimizer_state_queue tr2) of
                 Inl e \<Rightarrow>
                   Inr (state, tr2\<lparr>tr_trace := tr_trace tr2 @ [Log INFO FailedToAcquireNewState]\<rparr>)
               | Inr (v, rest) \<Rightarrow>
                   Inr (Some v, tr2\<lparr>tr_optimizer_state_queue := rest,
                                    tr_trace := tr_trace tr2 @ [Log INFO AcquiredNewState]\<rparr>)))"

text \<open>
  \<^verbatim>\<open>shut_down_training_process\<close>.  \<open>alive trial\<close> is the answer of
  \<^verbatim>\<open>self._training_process.is_alive()\<close> in the pass \<open>trial\<close> of \<^verbatim>\<open>for trial in range(6)\<close>.
\<close>

fun poll_alive :: "(nat \<Rightarrow> bool) \<Rightarrow> nat list \<Rightarrow> ctl_event list" where
  "poll_alive alive [] = []"
| "poll_alive alive (trial # trials) =
     Log INFO (TryOf trial 5) #
       (if alive trial
        then Log INFO ProcessAlive # SleepSeconds 10 # poll_alive alive trials
        else [])"

definition shut_down_training_process :: "(nat \<Rightarrow> bool) \<Rightarrow> 's trainer \<Rightarrow> 's trainer" where
  "shut_down_training_process alive tr =
     (if tr_training_process tr
      then tr\<lparr>tr_abort_event := True,
              tr_trace := tr_trace tr @ [Log INFO SettingAbortEvent, SetEvent ''abort'']
                          @ poll_alive alive [0..<6] @ [Log INFO ProcessDead]\<rparr>
      else tr)"

text \<open>
  \<^verbatim>\<open>_kill_state_server\<close>, which the worker calls on its server threads.  \<open>alive k\<close> is the
  answer of the \<open>k\<close>-th call of \<^verbatim>\<open>thread.is_alive()\<close>.  Unlike the method above it asks once
  more after the loop and warns when the thread is still alive.
\<close>

function kill_loop :: "(nat \<Rightarrow> bool) \<Rightarrow> nat \<Rightarrow> nat \<Rightarrow> nat \<Rightarrow> nat \<times> ctl_event list" where
  "kill_loop alive num_kill_attempts k kill_attempts =
     (if alive k
      then (let evs = [SleepSeconds 1, Log INFO (AttemptOf (Suc kill_attempts) num_kill_attempts)]
            in if Suc kill_attempts > num_kill_attempts then (Suc k, evs)
               else (case kill_loop alive num_kill_attempts (Suc k) (Suc kill_attempts) of
                       (k', evs') \<Rightarrow> (k', evs @ evs')))
      else (Suc k, []))"
  by pat_completeness auto
termination
  by (relation "measure (\<lambda>(alive, num, k, kill_attempts). Suc num - kill_attempts)") auto

declare kill_loop.simps [simp del]

definition kill_state_server :: "(nat \<Rightarrow> bool) \<Rightarrow> nat \<Rightarrow> ctl_event list" where
  "kill_state_server alive num_kill_attempts =
     (case kill_loop alive num_kill_attempts 0 0 of
        (k, evs) \<Rightarrow>
          [Log INFO KillingStateServer, SetEvent ''stop_server''] @ evs @
          [if alive k then Log WARNING (FailedToKill num_kill_attempts)
           else Log INFO StateServerKilled])"


section \<open>Concrete inputs\<close>

text \<open>
  The default hyperparameters of \<^verbatim>\<open>Trainer.__init__\<close> with a given batch size and cache size,
  a torch that has the criterion and the optimizer of these defaults and no other,
  the comparison metric on one-element tensors, a numeric step that always succeeds, a
  worker that puts nothing into a state queue while the controller waits and one that puts
  \<open>v\<close> after \<open>delay\<close> seconds, a training process that is alive whenever it is asked, other
  threads that leave a state server alone, and the controller right after \<^verbatim>\<open>ignition\<close>, holding
  the model state \<open>m\<close>.
\<close>

definition default_hparams :: "int \<Rightarrow> nat \<Rightarrow> hparams" where
  "default_hparams B C =
     \<lparr>optimizer_kwargs = [(''lr'', ''0.0003''), (''weight_decay'', ''0.0001''),
                          (''amsgrad'', ''True'')],
      optimizer_name = ''Adam'',
      criterion_kwargs = [(''reduce'', ''False'')],
      criterion_name = ''BCEWithLogitsLoss'',
      batch_size = B, cache_size = C,
      augmentor_kwargs = [(''invert_binary_labels'', ''True'')]\<rparr>"

definition accepts_only :: "string \<Rightarrow> string \<Rightarrow> kwargs \<Rightarrow> error option" where
  "accepts_only known name kw = (if name = known then None else Some AttributeError)"

definition torch_installed :: torch_lib where
  "torch_installed =
     \<lparr>nn_new = accepts_only ''BCEWithLogitsLoss'', optim_new = accepts_only ''Adam''\<rparr>"

definition absdiff_scalar :: "real \<Rightarrow> real \<Rightarrow> real" where
  "absdiff_scalar a b = \<bar>a - b\<bar>"

definition step_succeeds :: "real sample list \<Rightarrow> bool" where
  "step_succeeds batch = True"

definition nothing_arrives :: "nat \<Rightarrow> 's list" where
  "nothing_arrives timeout = []"

definition stays_alive :: "nat \<Rightarrow> bool" where
  "stays_alive trial = True"

definition arrives_after :: "nat \<Rightarrow> 's \<Rightarrow> nat \<Rightarrow> 's list" where
  "arrives_after delay v timeout = (if delay \<le> timeout then [v] else [])"

definition idle_env :: "nat \<Rightarrow> 's server \<Rightarrow> 's server" where
  "idle_env k sv = sv"

definition ignited_trainer :: "'s \<Rightarrow> 's trainer" where
  "ignited_trainer m =
     \<lparr>tr_ignited = True, tr_training_process = True, tr_model = m,
      tr_state_queue = [], tr_optimizer_state_queue = [],
      tr_state_request_event = False, tr_optimizer_state_request_event = False,
      tr_abort_event = False, tr_trace = []\<rparr>"


section \<open>Properties of the deque, of filling and of topping up\<close>

lemma deque_append_maxlen [simp]: "maxlen (deque_append d x) = maxlen d"
  by (simp add: deque_append_def Let_def)

lemma deque_append_bounded:
  "length (items (deque_append d x)) \<le> maxlen d" if "length (items d) \<le> maxlen d"
  using that by (simp add: deque_append_def Let_def)




lemma rotate_step:
  assumes "xs \<noteq> []" "length xs \<le> maxlen c" "items c = xs"
  shows "deque_append (snd (popleft c)) (fst (popleft c)) = c\<lparr>items := rotate1 xs\<rparr>"
  using assms by (cases xs) (simp_all add: popleft_def deque_append_def Let_def)

lemma top_up_char:
  "items c \<noteq> [] \<Longrightarrow> length (items c) \<le> maxlen c \<Longrightarrow>
   top_up B c batch =
     (c\<lparr>items := rotate (nat (B - int (length batch))) (items c)\<rparr>,
      batch @ map (\<lambda>i. items c ! (i mod length (items c))) [0..<nat (B - int (length batch))])"
proof (induction B c batch rule: top_up.induct)
  case (1 B c batch)
  let ?xs = "items c"
  let ?n = "length ?xs"
  show ?case
  proof (cases "int (length batch) < B")
    case False
    then have "nat (B - int (length batch)) = 0" by simp
    with False show ?thesis by (simp add: top_up.simps)
  next
    case True
    obtain k where k: "nat (B - int (length batch)) = Suc k"
      using True by (cases "nat (B - int (length batch))") auto
    then have k': "nat (B - int (length (batch @ [hd ?xs]))) = k" by simp
    let ?c2 = "c\<lparr>items := rotate1 ?xs\<rparr>"
    have step: "deque_append (snd (popleft c)) (fst (popleft c)) = ?c2"
      using "1.prems" by (intro rotate_step) simp_all
    have pl: "popleft c = (hd ?xs, snd (popleft c))"
      by (simp add: popleft_def)
    have unfold: "top_up B c batch = top_up B ?c2 (batch @ [hd ?xs])"
      using True "1.prems"(1) step
      by (subst top_up.simps) (simp add: popleft_def)
    have IH: "top_up B ?c2 (batch @ [hd ?xs]) =
       (?c2\<lparr>items := rotate k (items ?c2)\<rparr>,
        (batch @ [hd ?xs]) @ map (\<lambda>i. items ?c2 ! (i mod length (items ?c2))) [0..<k])"
    proof -
      have "top_up B (deque_append (snd (popleft c)) (fst (popleft c))) (batch @ [fst (popleft c)]) =
        ((deque_append (snd (popleft c)) (fst (popleft c)))\<lparr>items := rotate (nat (B - int (length (batch @ [fst (popleft c)])))) (items (deque_append (snd (popleft c)) (fst (popleft c))))\<rparr>,
         (batch @ [fst (popleft c)]) @ map (\<lambda>i. items (deque_append (snd (popleft c)) (fst (popleft c))) ! (i mod length (items (deque_append (snd (popleft c)) (fst (popleft c)))))) [0..<nat (B - int (length (batch @ [fst (popleft c)])))])"
        using True "1.prems" step
        by (intro "1.IH"[of "popleft c" "fst (popleft c)" "snd (popleft c)"]) simp_all
      moreover have "deque_append (c\<lparr>items := tl ?xs\<rparr>) (hd ?xs) = ?c2"
        using step by (simp add: popleft_def)
      ultimately show ?thesis using k' by (simp add: popleft_def)
    qed
    have rot: "rotate k (rotate1 ?xs) = rotate (Suc k) ?xs"
      by (simp add: rotate1_rotate_swap)
    have hd0: "hd ?xs = ?xs ! 0" using "1.prems"(1) by (simp add: hd_conv_nth)
    have nth: "rotate1 ?xs ! (i mod ?n) = ?xs ! (Suc i mod ?n)" for i
    proof -
      have "i mod ?n < ?n" using "1.prems"(1) by simp
      then have "rotate1 ?xs ! (i mod ?n) = ?xs ! (Suc (i mod ?n) mod ?n)"
        by (rule nth_rotate1)
      then show ?thesis by (simp add: mod_Suc_eq)
    qed
    show ?thesis
      unfolding unfold IH k using "1.prems"(1)
      by (simp add: rot hd0 nth map_upt_Suc del: upt_Suc rotate_Suc)
  qed
qed

lemma popleft_maxlen [simp]: "maxlen (snd (popleft d)) = maxlen d"
  by (simp add: popleft_def)








lemma assemble_rest:
  assumes "assemble ck absdiff s = (a, s')"
  shows "hparams s' = hparams s \<and> optimizer_queue s' = optimizer_queue s
     \<and> state_queue s' = state_queue s \<and> optim s' = optim s \<and> criterion s' = criterion s
     \<and> hparams_queue s' = hparams_queue s \<and> change_hparams s' = change_hparams s
     \<and> optimizer_state_request s' = optimizer_state_request s
     \<and> state_request s' = state_request s \<and> model s' = model s"
  using assms
  by (auto simp add: assemble_def Let_def split: sum.splits if_splits prod.splits)


lemma mset_rotate_eq: "mset (rotate n xs) = mset xs"
proof -
  have "mset (drop k xs @ take k xs) = mset (take k xs @ drop k xs)" for k
    by (simp only: mset_append add.commute)
  then show ?thesis by (simp only: rotate_drop_take append_take_drop_id)
qed

lemma foldl_deque_append_bounded:
  "length (items c) \<le> maxlen c \<Longrightarrow>
   maxlen (foldl deque_append c q) = maxlen c \<and> length (items (foldl deque_append c q)) \<le> maxlen c"
proof (induction q arbitrary: c)
  case Nil
  then show ?case by simp
next
  case (Cons x q)
  have "length (items (deque_append c x)) \<le> maxlen (deque_append c x)"
    using Cons.prems deque_append_bounded[of c x] by simp
  from Cons.IH[OF this] show ?case by simp
qed

lemma fill_short:
  "int (length batch) + int (length q) < batch_size hp \<Longrightarrow>
   fill False absdiff hp q c g batch = (Inl QueueEmpty, [], foldl deque_append c q, g, batch @ q)"
  by (induction q arbitrary: c batch) simp_all

lemma assemble_top_up:
  assumes short: "int (length (data_queue s)) < batch_size (hparams s)"
    and c1: "c1 = foldl deque_append (data_cache s) (data_queue s)"
    and ne: "items c1 \<noteq> []"
    and inv: "length (items (data_cache s)) \<le> maxlen (data_cache s)"
    and k: "k = nat (batch_size (hparams s) - int (length (data_queue s)))"
  shows "assemble False absdiff s =
     (Ready (data_queue s @ map (\<lambda>i. items c1 ! (i mod length (items c1))) [0..<k]),
      s\<lparr>data_queue := [], data_cache := c1\<lparr>items := rotate k (items c1)\<rparr>,
        global_data_cache := global_data_cache s\<rparr>)"
proof -
  have f: "fill False absdiff (hparams s) (data_queue s) (data_cache s) (global_data_cache s) []
      = (Inl QueueEmpty, [], c1, global_data_cache s, data_queue s)"
    using short fill_short[of "[]" "data_queue s" "hparams s" absdiff "data_cache s" "global_data_cache s"]
    by (simp add: c1)
  have b: "length (items c1) \<le> maxlen c1"
    using foldl_deque_append_bounded[OF inv, of "data_queue s"] by (simp add: c1)
  have t: "top_up (batch_size (hparams s)) c1 (data_queue s) =
     (c1\<lparr>items := rotate k (items c1)\<rparr>,
      data_queue s @ map (\<lambda>i. items c1 ! (i mod length (items c1))) [0..<k])"
    using top_up_char[OF ne b, of "batch_size (hparams s)" "data_queue s"] by (simp add: k)
  show ?thesis
    using short ne by (simp add: assemble_def f t)
qed

section \<open>Properties of one iteration and of runs\<close>

lemmas worker_defs = run_def start_worker_def train_iteration_def change_hparams_step_def
  state_request_step_def assemble_def numeric_update_def get_nowait_def put_nowait_def
  queue_maxsize_def deque_new_def deque_append_def popleft_def default_hparams_def
  new_optim_def new_criterion_def build_optim_def build_criterion_def torch_installed_def
  accepts_only_def step_succeeds_def Let_def

lemma change_hparams_step_keeps:
  assumes "change_hparams_step torch s = (r, s1)"
  shows "data_cache s1 = data_cache s" "data_queue s1 = data_queue s"
    "global_data_cache s1 = global_data_cache s" "state_queue s1 = state_queue s"
    "optimizer_queue s1 = optimizer_queue s" "state_request s1 = state_request s"
    "optimizer_state_request s1 = optimizer_state_request s" "model s1 = model s"
    "iter_count s1 = iter_count s" "\<not> change_hparams s1"
    "\<exists>evs. trace s1 = trace s @ evs \<and> fed_samples evs = [] \<and> (\<forall>b. Feed b \<notin> set evs)"
  using assms
  by (auto simp add: change_hparams_step_def get_nowait_def Let_def
      split: if_splits list.splits sum.splits)


lemma state_request_step_keeps:
  "hparams (state_request_step s) = hparams s"
  "hparams_queue (state_request_step s) = hparams_queue s"
  "criterion (state_request_step s) = criterion s"
  "optim (state_request_step s) = optim s"
  "change_hparams (state_request_step s) = change_hparams s"
  "trace (state_request_step s) = trace s"
  "data_cache (state_request_step s) = data_cache s"
  "data_queue (state_request_step s) = data_queue s"
  "iter_count (state_request_step s) = iter_count s"
  "optimizer_queue (state_request_step s) = optimizer_queue s"
  "optimizer_state_request (state_request_step s) = optimizer_state_request s"
  "state_queue (state_request_step s) = state_queue s @ (if state_request s then [model s] else [])"
  by (simp_all add: state_request_step_def put_nowait_def queue_maxsize_def Let_def)

lemma numeric_update_keeps:
  assumes "numeric_update ok b s = (out, s')"
  shows "hparams s' = hparams s \<and> hparams_queue s' = hparams_queue s
     \<and> criterion s' = criterion s \<and> change_hparams s' = change_hparams s
     \<and> data_cache s' = data_cache s \<and> data_queue s' = data_queue s
     \<and> optimizer_queue s' = optimizer_queue s \<and> state_queue s' = state_queue s
     \<and> optimizer_state_request s' = optimizer_state_request s
     \<and> opt_name (optim s') = opt_name (optim s) \<and> opt_kwargs (optim s') = opt_kwargs (optim s)
     \<and> opt_steps (optim s') - opt_steps (optim s) = iter_count s' - iter_count s
     \<and> opt_steps (optim s) \<le> opt_steps (optim s') \<and> opt_steps (optim s') \<le> Suc (opt_steps (optim s))
     \<and> (\<exists>evs. trace s' = trace s @ Feed b # evs \<and> fed_samples evs = []
           \<and> (\<forall>b'. Feed b' \<notin> set evs))"
  using assms by (auto simp add: numeric_update_def Let_def split: if_splits)

lemma assemble_keeps:
  assumes "assemble ck absdiff s = (a, s')"
  shows "hparams s' = hparams s \<and> optimizer_queue s' = optimizer_queue s
     \<and> state_queue s' = state_queue s \<and> optim s' = optim s \<and> criterion s' = criterion s
     \<and> hparams_queue s' = hparams_queue s \<and> change_hparams s' = change_hparams s
     \<and> optimizer_state_request s' = optimizer_state_request s
     \<and> state_request s' = state_request s \<and> model s' = model s
     \<and> iter_count s' = iter_count s
     \<and> (\<exists>evs. trace s' = trace s @ evs \<and> fed_samples evs = [] \<and> (\<forall>b. Feed b \<notin> set evs))"
  using assms
  by (auto simp add: assemble_def Let_def split: sum.splits if_splits prod.splits)

lemma train_iteration_cases:
  assumes it: "train_iteration torch ck absdiff ok s = (out, s')"
  obtains
    (raised) e where "change_hparams_step torch s = (Some e, s')" "out = Raised e"
  | (stopped) s1 evs where "change_hparams_step torch s = (None, s1)"
      "s' = (state_request_step s1)\<lparr>trace := trace (state_request_step s1) @ evs\<rparr>"
      "fed_samples evs = []" "\<forall>b. Feed b \<notin> set evs" "out = Break \<or> out = Continue"
  | (retry) s1 where "change_hparams_step torch s = (None, s1)"
      "assemble ck absdiff (state_request_step s1) = (Retry, s')" "out = Continue"
  | (failed) s1 e where "change_hparams_step torch s = (None, s1)"
      "assemble ck absdiff (state_request_step s1) = (Failed e, s')" "out = Raised e"
  | (fed) s1 b s3 where "change_hparams_step torch s = (None, s1)"
      "assemble ck absdiff (state_request_step s1) = (Ready b, s3)"
      "numeric_update ok b s3 = (out, s')"
proof -
  obtain r s1 where c: "change_hparams_step torch s = (r, s1)"
    by (cases "change_hparams_step torch s")
  show ?thesis
  proof (cases r)
    case (Some e)
    with c it have "s' = s1" "out = Raised e" by (simp_all add: train_iteration_def)
    with c Some show ?thesis by (intro raised[of e]) simp_all
  next
    case None
    let ?s2 = "state_request_step s1"
    obtain a s3 where a: "assemble ck absdiff ?s2 = (a, s3)"
      by (cases "assemble ck absdiff ?s2")
    show ?thesis
    proof (cases "abort ?s2")
      case True
      with c None it have "out = Break"
        "s' = ?s2\<lparr>trace := trace ?s2 @ [KillStateServer Model, KillStateServer Optimizer]\<rparr>"
        by (simp_all add: train_iteration_def Let_def)
      with c None show ?thesis
        by (intro stopped[of s1 "[KillStateServer Model, KillStateServer Optimizer]"]) simp_all
    next
      case na: False
      show ?thesis
      proof (cases "pause ?s2")
        case True
        with na c None it have "out = Continue" "s' = ?s2\<lparr>trace := trace ?s2 @ [Sleep 1000]\<rparr>"
          by (simp_all add: train_iteration_def Let_def)
        with c None show ?thesis by (intro stopped[of s1 "[Sleep 1000]"]) simp_all
      next
        case np: False
        show ?thesis
        proof (cases a)
          case Retry
          with na np c None it a have "out = Continue" "s' = s3"
            by (simp_all add: train_iteration_def Let_def)
          with c None a Retry show ?thesis by (intro retry[of s1]) simp_all
        next
          case (Failed e)
          with na np c None it a have "out = Raised e" "s' = s3"
            by (simp_all add: train_iteration_def Let_def)
          with c None a Failed show ?thesis by (intro failed[of s1 e]) simp_all
        next
          case (Ready b)
          with na np c None it a have "numeric_update ok b s3 = (out, s')"
            by (simp add: train_iteration_def Let_def)
          with c None a Ready show ?thesis by (intro fed[of s1 b s3]) simp_all
        qed
      qed
    qed
  qed
qed

























lemma train_iteration_queues:
  "optimizer_queue (snd (train_iteration torch ck absdiff ok s)) = optimizer_queue s
   \<and> optimizer_state_request (snd (train_iteration torch ck absdiff ok s)) = optimizer_state_request s
   \<and> state_queue (snd (train_iteration torch ck absdiff ok s)) =
       state_queue s @ (if state_request s \<and> fst (change_hparams_step torch s) = None
                        then [model s] else [])"
proof -
  obtain out s' where it: "train_iteration torch ck absdiff ok s = (out, s')"
    by (cases "train_iteration torch ck absdiff ok s")
  from it have "optimizer_queue s' = optimizer_queue s
   \<and> optimizer_state_request s' = optimizer_state_request s
   \<and> state_queue s' =
       state_queue s @ (if state_request s \<and> fst (change_hparams_step torch s) = None
                        then [model s] else [])"
  proof (cases rule: train_iteration_cases)
    case (raised e)
    with change_hparams_step_keeps[OF raised(1)] show ?thesis by simp
  next
    case (stopped s1 evs)
    with change_hparams_step_keeps[OF stopped(1)] show ?thesis
      by (simp add: state_request_step_keeps)
  next
    case (retry s1)
    with change_hparams_step_keeps[OF retry(1)] assemble_keeps[OF retry(2)] show ?thesis
      by (simp add: state_request_step_keeps)
  next
    case (failed s1 e)
    with change_hparams_step_keeps[OF failed(1)] assemble_keeps[OF failed(2)] show ?thesis
      by (simp add: state_request_step_keeps)
  next
    case (fed s1 b s3)
    with change_hparams_step_keeps[OF fed(1)] assemble_keeps[OF fed(2)]
      numeric_update_keeps[OF fed(3)] show ?thesis
      by (simp add: state_request_step_keeps)
  qed
  with it show ?thesis by simp
qed

lemma foldl_optimizer_queue:
  "optimizer_queue (snd (foldl (system_step torch ck absdiff ok) (out, s) actions)) = optimizer_queue s"
proof (induction actions arbitrary: out s)
  case Nil
  show ?case by simp
next
  case (Cons a actions)
  have "optimizer_queue (snd (system_step torch ck absdiff ok (out, s) a)) = optimizer_queue s"
    using train_iteration_queues[of torch ck absdiff ok s] by (cases a) simp_all
  with Cons.IH[of "fst (system_step torch ck absdiff ok (out, s) a)"
      "snd (system_step torch ck absdiff ok (out, s) a)"]
  show ?case by simp
qed

section \<open>Properties of the controller\<close>

lemma train_process_start_default:
  "train_process_start torch_installed (default_hparams B C) m
     = Inr (start_worker (default_hparams B C) m)"
  by (simp add: train_process_start_def build_criterion_def build_optim_def
      torch_installed_def accepts_only_def default_hparams_def)

lemma drain_loop_char:
  "drain_loop q (st, evs) =
     (if q = [] then st else Some (last q), evs @ replicate (length q) (Log INFO FoundResidualState))"
  by (induction q arbitrary: st evs) (simp_all add: replicate_app_Cons_same)

lemma kill_state_server_warns: "kill_state_server stays_alive 1 = 
  [Log INFO KillingStateServer, SetEvent ''stop_server'', SleepSeconds 1,
  Log INFO (AttemptOf 1 1), SleepSeconds 1, Log INFO (AttemptOf 2 1), Log WARNING (FailedToKill 1)]"
  by (simp add: kill_state_server_def kill_loop.simps stays_alive_def)

section \<open>The claims\<close>

text \<open>
  C2 (code defect).  Every batch handed to the numeric step should have exactly
  \<^verbatim>\<open>batch_size\<close> elements.  With \<^verbatim>\<open>batch_size = 2\<close>, \<^verbatim>\<open>cache_size = 0\<close>, cache keeping off and one
  sample pushed, the iteration hands the one-element batch to the numeric step: the handler
  of \<^verbatim>\<open>queue.Empty\<close> takes the branch \<^verbatim>\<open>len(batch) < hparams.batch_size\<close>, whose top-up loop does
  nothing on the empty cache.
\<close>

theorem short_batch_is_fed:
  "trace (snd (run torch_installed False absdiff_scalar step_succeeds [Push [(0, 0)], Iterate]
                 (start_worker (default_hparams 2 0) 0)))
     = [StartStateServer Model, StartStateServer Optimizer, Feed [(0, 0)]]
   \<and> batch_size (hparams (snd (run torch_installed False absdiff_scalar step_succeeds
                 [Push [(0, 0)], Iterate] (start_worker (default_hparams 2 0) 0)))) = 2"
  by (simp add: worker_defs top_up.simps)

text \<open>
  C3 (counterexample).  On a timeout the state held by the controller is not always kept:
  holding state 3, with the stale state 7 in the queue and nothing arriving within the
  timeout, \<^verbatim>\<open>update_handler_model_state\<close> loads 7.
\<close>

theorem pull_state_timeout_counterexample:
  "map_sum id tr_model
     (update_handler_model_state nothing_arrives ((ignited_trainer (3 :: nat))\<lparr>tr_state_queue := [7]\<rparr>))
   = Inr 7"
  by (simp add: update_handler_model_state_def drain_state_queue_def
         queue_get_def get_nowait_def STATE_QUEUE_GET_TIMEOUT_def Let_def ignited_trainer_def nothing_arrives_def)

text \<open>
  C3 (amended).  On an ignited trainer \<^verbatim>\<open>update_handler_model_state\<close> first takes every
  stale state out of the state queue, then sets the request event, then waits on the queue
  with the timeout of 5 seconds.  When a state arrives in time, it becomes the state held.
  On a timeout the failure is logged, and the state held is kept if the queue was empty at
  the start, and is replaced by the last stale state taken out otherwise.
\<close>

theorem pull_state_protocol:
  assumes "tr_ignited tr"
  shows "\<exists>tr'. update_handler_model_state arrivals tr = Inr tr'
     \<and> tr_trace tr' = tr_trace tr @ [Log INFO RequestingNewState]
          @ replicate (length (tr_state_queue tr)) (Log INFO FoundResidualState)
          @ [SetEvent ''state_request'', Log INFO WaitingForNewState, BlockingGet Model 5]
          @ (case arrivals 5 of
               v # rest \<Rightarrow> [Log INFO AcquiredNewState, LoadStateDict, Log INFO LoadedState]
             | [] \<Rightarrow> Log INFO FailedToAcquireNewState #
                     (if tr_state_queue tr = [] then []
                      else [LoadStateDict, Log INFO LoadedState]))
     \<and> tr_state_request_event tr'
     \<and> tr_state_queue tr' = tl (arrivals 5)
     \<and> tr_model tr' =
         (case arrivals 5 of
            v # rest \<Rightarrow> v
          | [] \<Rightarrow> if tr_state_queue tr = [] then tr_model tr else last (tr_state_queue tr))"
proof (cases "arrivals 5")
  case Nil
  with assms show ?thesis
    by (cases "tr_state_queue tr = []")
       (simp_all add: update_handler_model_state_def drain_state_queue_def drain_loop_char
         queue_get_def get_nowait_def STATE_QUEUE_GET_TIMEOUT_def Let_def)
next
  case (Cons v rest)
  with assms show ?thesis
    by (simp add: update_handler_model_state_def drain_state_queue_def drain_loop_char
         queue_get_def get_nowait_def STATE_QUEUE_GET_TIMEOUT_def Let_def)
qed

text \<open>C3 (witness): state 3 held, stale state 7 queued, state 9 arriving after 2 seconds.\<close>

theorem pull_state_protocol_witness:
  "map_sum id tr_model
     (update_handler_model_state (arrives_after 2 9)
        ((ignited_trainer (3 :: nat))\<lparr>tr_state_queue := [7]\<rparr>)) = Inr 9"
proof -
  have ign: "tr_ignited ((ignited_trainer (3 :: nat))\<lparr>tr_state_queue := [7]\<rparr>)"
    by (simp add: ignited_trainer_def)
  from pull_state_protocol [OF ign, of "arrives_after 2 9"]
  obtain tr' where
    "update_handler_model_state (arrives_after 2 9)
        ((ignited_trainer (3 :: nat))\<lparr>tr_state_queue := [7]\<rparr>) = Inr tr'"
    and "tr_model tr' = (case arrives_after 2 9 5 of v # rest \<Rightarrow> v
          | [] \<Rightarrow> if tr_state_queue ((ignited_trainer (3 :: nat))\<lparr>tr_state_queue := [7]\<rparr>) = []
                  then tr_model ((ignited_trainer (3 :: nat))\<lparr>tr_state_queue := [7]\<rparr>)
                  else last (tr_state_queue ((ignited_trainer (3 :: nat))\<lparr>tr_state_queue := [7]\<rparr>)))"
    by blast
  then show ?thesis by (simp add: arrives_after_def)
qed

text \<open>
  C4 (code defect).  With cache keeping on, the first sample taken from the queue should be
  compared with the cache, put into the batch and appended to the cache.  Instead
  \<^verbatim>\<open>_cache_keeping\<close> raises \<^verbatim>\<open>NameError\<close>, because it reads the module-level name
  \<^verbatim>\<open>data_cache\<close>, which is never bound; the exception leaves the loop, nothing is fed and
  nothing is cached.
\<close>

theorem cache_keeping_raises_name_error:
  "run torch_installed True absdiff_scalar step_succeeds [Push [(0, 0)], Iterate]
       (start_worker (default_hparams 2 10) 0)
     = (Raised NameError, start_worker (default_hparams 2 10) 0)"
  by (simp add: worker_defs top_up.simps cache_keeping_def)




text \<open>
  C6.  With a non-empty cache within its bound, the top-up loop appends to the batch the
  cache entries from the left, cyclically, until the batch has \<^verbatim>\<open>batch_size\<close> elements, and
  leaves the cache rotated by the number of entries borrowed: the same entries, none lost.
  When the queue holds fewer samples than \<^verbatim>\<open>batch_size\<close> and cache keeping is off, the
  assembly takes them all, appends them to the cache, and tops the batch up in this way.
  With \<^verbatim>\<open>batch_size = 2\<close>, \<^verbatim>\<open>cache_size = 10\<close> and three samples pushed, the first batch is
  samples 0 and 1 and the second is samples 2 and 0.
\<close>

theorem top_up_borrows_cyclically:
  "(items c \<noteq> [] \<and> length (items c) \<le> maxlen c \<longrightarrow>
      top_up B c batch =
        (c\<lparr>items := rotate (nat (B - int (length batch))) (items c)\<rparr>,
         batch @ map (\<lambda>i. items c ! (i mod length (items c))) [0..<nat (B - int (length batch))])
      \<and> mset (items (fst (top_up B c batch))) = mset (items c))
   \<and> (int (length (data_queue s)) < batch_size (hparams s)
       \<and> c1 = foldl deque_append (data_cache s) (data_queue s) \<and> items c1 \<noteq> []
       \<and> length (items (data_cache s)) \<le> maxlen (data_cache s)
       \<and> k = nat (batch_size (hparams s) - int (length (data_queue s))) \<longrightarrow>
      assemble False absdiff s =
        (Ready (data_queue s @ map (\<lambda>i. items c1 ! (i mod length (items c1))) [0..<k]),
         s\<lparr>data_queue := [], data_cache := c1\<lparr>items := rotate k (items c1)\<rparr>,
           global_data_cache := global_data_cache s\<rparr>))
   \<and> trace (snd (run torch_installed False absdiff_scalar step_succeeds
                [Push [(0, 0), (1, 0), (2, 0)], Iterate, Iterate]
                (start_worker (default_hparams 2 10) 0)))
       = [StartStateServer Model, StartStateServer Optimizer,
          Feed [(0, 0), (1, 0)], Feed [(2, 0), (0, 0)]]
   \<and> items (data_cache (snd (run torch_installed False absdiff_scalar step_succeeds
                [Push [(0, 0), (1, 0), (2, 0)], Iterate, Iterate]
                (start_worker (default_hparams 2 10) 0))))
       = [(1, 0), (2, 0), (0, 0)]"
proof -
  have 1: "items c \<noteq> [] \<and> length (items c) \<le> maxlen c \<longrightarrow>
      top_up B c batch =
        (c\<lparr>items := rotate (nat (B - int (length batch))) (items c)\<rparr>,
         batch @ map (\<lambda>i. items c ! (i mod length (items c))) [0..<nat (B - int (length batch))])
      \<and> mset (items (fst (top_up B c batch))) = mset (items c)"
    by (simp add: top_up_char mset_rotate_eq)
  have 2: "int (length (data_queue s)) < batch_size (hparams s)
       \<and> c1 = foldl deque_append (data_cache s) (data_queue s) \<and> items c1 \<noteq> []
       \<and> length (items (data_cache s)) \<le> maxlen (data_cache s)
       \<and> k = nat (batch_size (hparams s) - int (length (data_queue s))) \<longrightarrow>
      assemble False absdiff s =
        (Ready (data_queue s @ map (\<lambda>i. items c1 ! (i mod length (items c1))) [0..<k]),
         s\<lparr>data_queue := [], data_cache := c1\<lparr>items := rotate k (items c1)\<rparr>,
           global_data_cache := global_data_cache s\<rparr>)"
    using assemble_top_up[of s c1 k absdiff] by blast
  have 3: "trace (snd (run torch_installed False absdiff_scalar step_succeeds
                [Push [(0, 0), (1, 0), (2, 0)], Iterate, Iterate]
                (start_worker (default_hparams 2 10) 0)))
       = [StartStateServer Model, StartStateServer Optimizer,
          Feed [(0, 0), (1, 0)], Feed [(2, 0), (0, 0)]]"
    by (simp add: worker_defs top_up.simps)
  have 4: "items (data_cache (snd (run torch_installed False absdiff_scalar step_succeeds
                [Push [(0, 0), (1, 0), (2, 0)], Iterate, Iterate]
                (start_worker (default_hparams 2 10) 0))))
       = [(1, 0), (2, 0), (0, 0)]"
    by (simp add: worker_defs top_up.simps)
  from 1 2 3 4 show ?thesis by blast
qed

text \<open>C6 (witness): the cache and the batch of the second iteration of the scenario.\<close>

theorem top_up_borrows_cyclically_witness:
  "top_up 2 \<lparr>items = [(0, 0), (1, 0), (2, 0) :: real sample], maxlen = 10\<rparr> [(2, 0)]
     = (\<lparr>items = [(1, 0), (2, 0), (0, 0)], maxlen = 10\<rparr>, [(2, 0), (0, 0)])
   \<and> assemble False absdiff_scalar
       ((start_worker (default_hparams 2 10) 0)
          \<lparr>data_queue := [(2, 0)], data_cache := \<lparr>items = [(0, 0), (1, 0)], maxlen = 10\<rparr>\<rparr>)
     = (Ready [(2, 0), (0, 0)],
        (start_worker (default_hparams 2 10) 0)
          \<lparr>data_queue := [], data_cache := \<lparr>items = [(1, 0), (2, 0), (0, 0)], maxlen = 10\<rparr>\<rparr>)"
  using top_up_borrows_cyclically [of "\<lparr>items = [(0, 0), (1, 0), (2, 0) :: real sample], maxlen = 10\<rparr>"
      2 "[(2, 0)]"
      "(start_worker (default_hparams 2 10) 0)
          \<lparr>data_queue := [(2, 0)], data_cache := \<lparr>items = [(0, 0), (1, 0)], maxlen = 10\<rparr>\<rparr>"
      "\<lparr>items = [(0, 0), (1, 0), (2, 0)], maxlen = 10\<rparr>" 1 absdiff_scalar]
  by (simp add: start_worker_def default_hparams_def deque_append_def Let_def)

text \<open>
  C7 (code defect).  A partially filled batch with an empty cache after the queue is
  exhausted should stop both state servers and raise.  With \<^verbatim>\<open>batch_size = 3\<close>,
  \<^verbatim>\<open>cache_size = 0\<close> and two samples in the queue, the assembly returns the two-element batch
  for the numeric step, calls \<^verbatim>\<open>_kill_state_server\<close> on nothing and raises nothing: the branch
  with \<^verbatim>\<open>raise RuntimeError\<close> comes after \<^verbatim>\<open>elif len(batch) < hparams.batch_size\<close>, which has
  already taken this case.
\<close>

theorem partial_batch_with_empty_cache_is_ready:
  "assemble False absdiff_scalar
       ((start_worker (default_hparams 3 0) 0)\<lparr>data_queue := [(0, 0), (1, 0)]\<rparr>)
     = (Ready [(0, 0), (1, 0)], start_worker (default_hparams 3 0) 0)"
  by (simp add: worker_defs top_up.simps)




text \<open>
  C9 (code defect).  The shutdown should log whether the worker died.  On a training process
  that stays alive through all six liveness checks, \<^verbatim>\<open>shut_down_training_process\<close> sets the
  abort event, sleeps six times ten seconds, and then logs \<^verbatim>\<open>Process Dead.\<close> at level INFO;
  it logs no warning and does not terminate the process.
\<close>

theorem shutdown_says_dead_when_alive:
  "shut_down_training_process stays_alive (ignited_trainer (0 :: nat)) =
     (ignited_trainer 0)\<lparr>tr_abort_event := True, tr_trace :=
      [Log INFO SettingAbortEvent, SetEvent ''abort'',
       Log INFO (TryOf 0 5), Log INFO ProcessAlive, SleepSeconds 10,
       Log INFO (TryOf 1 5), Log INFO ProcessAlive, SleepSeconds 10,
       Log INFO (TryOf 2 5), Log INFO ProcessAlive, SleepSeconds 10,
       Log INFO (TryOf 3 5), Log INFO ProcessAlive, SleepSeconds 10,
       Log INFO (TryOf 4 5), Log INFO ProcessAlive, SleepSeconds 10,
       Log INFO (TryOf 5 5), Log INFO ProcessAlive, SleepSeconds 10,
       Log INFO ProcessDead]\<rparr>"
  by (simp add: shut_down_training_process_def ignited_trainer_def stays_alive_def upt_rec)

text \<open>
  C10.  The assertion at the head of \<^verbatim>\<open>_state_server\<close> raises \<^verbatim>\<open>TypeError\<close> for every object
  served, whatever the stop event, the request event and the other threads do: the thread
  dies with the shared state untouched, so it never puts a state and never clears the
  request.  One iteration of the worker loop appends to the model state queue exactly the
  model state when the request event is set (and the hyperparameter change has not raised
  before), and nothing otherwise; no run of the worker puts anything into the optimizer state
  queue, and a request for the optimizer state times out and returns \<^verbatim>\<open>None\<close>.
\<close>

theorem state_server_dies:
  "state_server fuel env mro sv = (Died TypeError, sv)
   \<and> state_queue (snd (train_iteration torch ck absdiff ok s)) =
       state_queue s @ (if state_request s \<and> fst (change_hparams_step torch s) = None
                        then [model s] else [])
   \<and> optimizer_queue (snd (run torch ck absdiff ok actions (start_worker hp m))) = []
   \<and> map_sum id fst (update_handler_optimizer_state nothing_arrives (ignited_trainer h)) = Inr None"
proof -
  have 1: "state_server fuel env mro sv = (Died TypeError, sv)"
    by (simp add: state_server_def isinstance_def torch_optim_def)
  have 3: "optimizer_queue (snd (run torch ck absdiff ok actions (start_worker hp m))) = []"
    by (simp add: run_def foldl_optimizer_queue) (simp add: start_worker_def)
  have 4: "map_sum id fst (update_handler_optimizer_state nothing_arrives (ignited_trainer h)) = Inr None"
    by (simp add: update_handler_optimizer_state_def ignited_trainer_def drain_state_queue_def
        queue_get_def get_nowait_def nothing_arrives_def Let_def)
  from 1 3 4 train_iteration_queues[of torch ck absdiff ok s] show ?thesis by simp
qed

text \<open>C10 (witness): a server thread for an Adam optimizer with a pending request.\<close>

theorem state_server_dies_witness:
  "state_server 3 idle_env [''Adam'', ''Optimizer'', ''object'']
       \<lparr>stop_server = False, request = True, served_queue = [], state_obj = (0 :: nat)\<rparr>
     = (Died TypeError,
        \<lparr>stop_server = False, request = True, served_queue = [], state_obj = 0\<rparr>)"
  by (rule state_server_dies [THEN conjunct1])

end
